theory Spec2Isabelle
  imports Complex_Main
begin

section \<open>The command-line options object (F3DOptions.cxx)\<close>

text \<open>
  The fields of \<open>F3DOptions\<close> that \<open>InitializeFromArgs\<close> binds to command-line flags, and
  \<open>Input\<close>, which it assigns from the positional argument.
\<close>

record F3DOptions =
  Verbose :: bool
  Axis :: bool
  Grid :: bool
  Normals :: bool
  BackgroundColor :: "real list"
  WindowSize :: "int list"
  Scalars :: string
  Component :: int
  Cells :: bool
  Range :: "real list"
  HideBar :: bool
  DepthPeeling :: bool
  FXAA :: bool
  SSAO :: bool
  Input :: string

text \<open>
  What a call does with the control flow of the process: it returns a value to its caller,
  it ends the process through \<open>exit\<close> with a status, or an exception leaves the function.
\<close>

datatype cxx_exception = OptionException string | OtherException string

datatype 'a outcome = Returned 'a | Exited int | Raised cxx_exception

definition EXIT_SUCCESS :: int where
  "EXIT_SUCCESS = 0"

definition EXIT_FAILURE :: int where
  "EXIT_FAILURE = 1"

text \<open>
  The command-line library (cxxopts) is a dependency of the program. Its behaviour is a
  parameter of the model: \<open>parse\<close> takes the argument vector and the options object whose
  fields were bound with \<open>cxxopts::value<T>(this->Field)\<close>; it either throws, or gives the
  options object with the bound fields written and a parse result. A parse result answers
  \<open>count(name)\<close> and \<open>operator[](name).as<std::string>()\<close>, the latter throwing when the
  option holds no value. \<open>help_text\<close> is the text of \<open>options.help()\<close>.
\<close>

record ParseResult =
  count :: "string \<Rightarrow> nat"
  as_string :: "string \<Rightarrow> cxx_exception + string"

record cxxopts =
  help_text :: string
  parse :: "string list \<Rightarrow> F3DOptions \<Rightarrow> cxx_exception + (F3DOptions \<times> ParseResult)"

text \<open>
  The \<open>catch (const cxxopts::OptionException&)\<close> handler of \<open>InitializeFromArgs\<close>: an option
  exception is reported on standard output and ends the process; any other exception is
  not caught and leaves the function.
\<close>

fun catch_OptionException :: "cxx_exception \<Rightarrow> string list \<times> (bool \<times> F3DOptions) outcome" where
  "catch_OptionException (OptionException what) =
     ([''error parsing options: '' @ what], Exited EXIT_FAILURE)"
| "catch_OptionException (OtherException what) = ([], Raised (OtherException what))"

text \<open>
  \<open>F3DOptions::InitializeFromArgs(argc, argv)\<close>. The argument vector is the list \<open>argv\<close>,
  \<open>argc\<close> its length. The result is the text written to standard output and the outcome;
  a returned value is the boolean with the options object as the call leaves it. With an
  empty argument vector \<open>argv[0]\<close> is a null pointer, from which no program name can be
  built: that case is an exception leaving the function.
\<close>

definition InitializeFromArgs ::
  "cxxopts \<Rightarrow> string list \<Rightarrow> F3DOptions \<Rightarrow> string list \<times> (bool \<times> F3DOptions) outcome" where
  "InitializeFromArgs lib argv this =
     (if argv = [] then ([], Raised (OtherException ''argv[0] is null''))
      else if length argv = 1 then ([help_text lib], Exited EXIT_FAILURE)
      else
        (case parse lib argv this of
           Inl e \<Rightarrow> catch_OptionException e
         | Inr (this', result) \<Rightarrow>
             if count result ''help'' > 0 then ([help_text lib], Exited EXIT_SUCCESS)
             else
               (case as_string result ''input'' of
                  Inl e \<Rightarrow> catch_OptionException e
                | Inr input \<Rightarrow> ([], Returned (True, this'\<lparr>Input := input\<rparr>)))))"

text \<open>
  \<open>F3DOptions::InitializeFromFile(fname)\<close>. The file system is a partial map from file
  names to contents (\<open>None\<close>: the file cannot be opened). The JSON library is a parameter:
  \<open>parseFromStream\<close> gives the error text or the root value. The result is the text written
  to standard error, the returned boolean, and the options object as the call leaves it.
\<close>

definition InitializeFromFile ::
  "(string \<Rightarrow> string option) \<Rightarrow> (string \<Rightarrow> string + 'json) \<Rightarrow> string \<Rightarrow> F3DOptions
     \<Rightarrow> string list \<times> bool \<times> F3DOptions" where
  "InitializeFromFile fs parseFromStream fname this =
     (case fs fname of
        None \<Rightarrow> ([''Unable to open configuration file '' @ fname], False, this)
      | Some file \<Rightarrow>
          (case parseFromStream file of
             Inl errs \<Rightarrow> ([''Unable to parse the configuration file '' @ fname], False, this)
           | Inr root_value \<Rightarrow> ([], True, this)))"

section \<open>The options read by the window (window_impl)\<close>

text \<open>
  The window reads the fields of the library's \<open>options\<close> structure by name. The structure
  is declared in a generated header; its field types are not fixed by the window's code,
  so an option value is a tagged value. Three fields are typed by the way the window uses
  them: \<open>model.point_sprites.type\<close> is compared with a string literal,
  \<open>render.background.color\<close> is passed as a pointer to doubles (\<open>.data()\<close>), and
  \<open>scene.camera.index\<close> is an optional (\<open>.has_value()\<close>). The field \<open>render.hdri.file\<close>
  is written \<open>hdri_file\<close>.
\<close>

datatype SplatType = GAUSSIAN | SPHERE

datatype InputBufferType = VTK_RGB | VTK_RGBA | VTK_ZBUFFER

datatype val =
    VBool bool
  | VInt int
  | VDouble real
  | VString string
  | VDoubles "real list"
  | VOptional "val option"
  | VSplatType SplatType
  | VBufferType InputBufferType

record interactor_options =
  axis :: val
  trackball :: val
  invert_zoom :: val

record point_sprites_options =
  enable :: val
  type :: string
  size :: val

record color_options =
  rgb :: val
  opacity :: val
  texture :: val

record material_options =
  roughness :: val
  metallic :: val
  texture :: val

record emissive_options =
  texture :: val
  factor :: val

record normal_options =
  texture :: val
  scale :: val

record matcap_options =
  texture :: val

record scivis_options =
  enable :: val
  cells :: val
  array_name :: val
  component :: val
  range :: val
  colormap :: val

record volume_options =
  enable :: val
  inverse :: val

record model_options =
  point_sprites :: point_sprites_options
  color :: color_options
  material :: material_options
  emissive :: emissive_options
  normal :: normal_options
  matcap :: matcap_options
  scivis :: scivis_options
  volume :: volume_options

record raytracing_options =
  enable :: val
  samples :: val
  denoise :: val

record effect_options =
  ambient_occlusion :: val
  anti_aliasing :: val
  tone_mapping :: val
  translucency_support :: val
  final_shader :: val

record background_options =
  color :: "real list"
  blur :: val
  blur_coc :: val
  skybox :: val

record light_options =
  intensity :: val

record hdri_options =
  hdri_file :: val
  ambient :: val

record grid_options =
  unit :: val
  subdivisions :: val
  absolute :: val
  enable :: val
  color :: val

record render_options =
  line_width :: val
  point_size :: val
  show_edges :: val
  backface_type :: val
  raytracing :: raytracing_options
  effect :: effect_options
  background :: background_options
  light :: light_options
  hdri :: hdri_options
  grid :: grid_options

record ui_options =
  fps :: val
  filename :: val
  filename_info :: val
  metadata :: val
  cheatsheet :: val
  dropzone :: val
  dropzone_info :: val
  font_file :: val
  scalar_bar :: val

record camera_options =
  index :: "val option"
  orthographic :: val

record scene_options =
  up_direction :: val
  camera :: camera_options

record options =
  interactor :: interactor_options
  model :: model_options
  render :: render_options
  ui :: ui_options
  scene :: scene_options

text \<open>
  The conversion of \<open>const int pointSpritesSize = opt.model.point_sprites.size\<close> to a
  32-bit \<open>int\<close>: an integer option is kept, a boolean is 0 or 1, a double is truncated
  toward zero. A double whose truncation is outside the range of \<open>int\<close> has no defined
  conversion in C++; it is given \<open>INT_MIN\<close>, the value the conversion instruction of the
  usual targets produces. The other tags have no conversion to \<open>int\<close> in C++; they are
  given 0.
\<close>

definition INT_MIN :: int where
  "INT_MIN = - 2147483648"

definition INT_MAX :: int where
  "INT_MAX = 2147483647"

definition truncate :: "real \<Rightarrow> int" where
  "truncate d = (if 0 \<le> d then \<lfloor>d\<rfloor> else \<lceil>d\<rceil>)"

fun to_int :: "val \<Rightarrow> int" where
  "to_int (VInt i) = i"
| "to_int (VDouble d) =
     (if INT_MIN \<le> truncate d \<and> truncate d \<le> INT_MAX then truncate d else INT_MIN)"
| "to_int (VBool b) = (if b then 1 else 0)"
| "to_int (VString s) = 0"
| "to_int (VDoubles ds) = 0"
| "to_int (VOptional v) = 0"
| "to_int (VSplatType t) = 0"
| "to_int (VBufferType t) = 0"

section \<open>Render windows of the toolkit\<close>

text \<open>
  The backend types of the window (\<open>window::Type\<close>), as \<open>window_impl\<close> names them.
\<close>

datatype Type = NONE | EXTERNAL | GLX | WGL | COCOA | EGL | OSMESA | WASM | UNKNOWN

text \<open>
  The render-window classes the window's code names, with the classes between them and
  \<open>vtkRenderWindow\<close>. The class hierarchy belongs to the toolkit (and, for
  \<open>vtkF3DNoRenderWindow\<close>, to a header outside the window's code): \<open>superclasses\<close> lists a
  class with its ancestors up to \<open>vtkRenderWindow\<close>, and \<open>IsA\<close> is the toolkit's run-time
  type test by class name.
\<close>

datatype vtk_class =
    vtkRenderWindow
  | vtkOpenGLRenderWindow
  | vtkGenericOpenGLRenderWindow
  | vtkF3DNoRenderWindow
  | vtkExternalOpenGLRenderWindow
  | vtkEGLRenderWindow
  | vtkOSOpenGLRenderWindow
  | vtkXOpenGLRenderWindow
  | vtkWin32OpenGLRenderWindow
  | vtkCocoaRenderWindow
  | vtkWebAssemblyOpenGLRenderWindow

fun GetClassName :: "vtk_class \<Rightarrow> string" where
  "GetClassName vtkRenderWindow = ''vtkRenderWindow''"
| "GetClassName vtkOpenGLRenderWindow = ''vtkOpenGLRenderWindow''"
| "GetClassName vtkGenericOpenGLRenderWindow = ''vtkGenericOpenGLRenderWindow''"
| "GetClassName vtkF3DNoRenderWindow = ''vtkF3DNoRenderWindow''"
| "GetClassName vtkExternalOpenGLRenderWindow = ''vtkExternalOpenGLRenderWindow''"
| "GetClassName vtkEGLRenderWindow = ''vtkEGLRenderWindow''"
| "GetClassName vtkOSOpenGLRenderWindow = ''vtkOSOpenGLRenderWindow''"
| "GetClassName vtkXOpenGLRenderWindow = ''vtkXOpenGLRenderWindow''"
| "GetClassName vtkWin32OpenGLRenderWindow = ''vtkWin32OpenGLRenderWindow''"
| "GetClassName vtkCocoaRenderWindow = ''vtkCocoaRenderWindow''"
| "GetClassName vtkWebAssemblyOpenGLRenderWindow = ''vtkWebAssemblyOpenGLRenderWindow''"

fun superclasses :: "vtk_class \<Rightarrow> vtk_class list" where
  "superclasses vtkRenderWindow = [vtkRenderWindow]"
| "superclasses vtkOpenGLRenderWindow = [vtkOpenGLRenderWindow, vtkRenderWindow]"
| "superclasses vtkGenericOpenGLRenderWindow =
     [vtkGenericOpenGLRenderWindow, vtkOpenGLRenderWindow, vtkRenderWindow]"
| "superclasses vtkF3DNoRenderWindow = [vtkF3DNoRenderWindow, vtkRenderWindow]"
| "superclasses vtkExternalOpenGLRenderWindow =
     [vtkExternalOpenGLRenderWindow, vtkGenericOpenGLRenderWindow, vtkOpenGLRenderWindow,
      vtkRenderWindow]"
| "superclasses vtkEGLRenderWindow =
     [vtkEGLRenderWindow, vtkOpenGLRenderWindow, vtkRenderWindow]"
| "superclasses vtkOSOpenGLRenderWindow =
     [vtkOSOpenGLRenderWindow, vtkOpenGLRenderWindow, vtkRenderWindow]"
| "superclasses vtkXOpenGLRenderWindow =
     [vtkXOpenGLRenderWindow, vtkOpenGLRenderWindow, vtkRenderWindow]"
| "superclasses vtkWin32OpenGLRenderWindow =
     [vtkWin32OpenGLRenderWindow, vtkOpenGLRenderWindow, vtkRenderWindow]"
| "superclasses vtkCocoaRenderWindow =
     [vtkCocoaRenderWindow, vtkOpenGLRenderWindow, vtkRenderWindow]"
| "superclasses vtkWebAssemblyOpenGLRenderWindow =
     [vtkWebAssemblyOpenGLRenderWindow, vtkOpenGLRenderWindow, vtkRenderWindow]"

text \<open>
  A toolkit object is known to the window only through the calls the window makes on it.
  Its state is the arguments of the last call of each method (\<open>None\<close>: never called, the
  toolkit's default). A render window has, besides, its class and the renderers added
  to it, in order. The window owns one renderer, \<open>Internals->Renderer\<close>.
\<close>

type_synonym settings = "string \<Rightarrow> val list option"

datatype renderer_ref = Internals_Renderer

record vtkRenderWindow_object =
  Class :: vtk_class
  Renderers :: "renderer_ref list"
  Attributes :: settings

definition New :: "vtk_class \<Rightarrow> vtkRenderWindow_object" where
  "New c = \<lparr>Class = c, Renderers = [], Attributes = Map.empty\<rparr>"

definition IsA :: "vtkRenderWindow_object \<Rightarrow> string \<Rightarrow> bool" where
  "IsA renWin name = (name \<in> set (map GetClassName (superclasses (Class renWin))))"

definition Set :: "string \<Rightarrow> val list \<Rightarrow> vtkRenderWindow_object \<Rightarrow> vtkRenderWindow_object" where
  "Set method args renWin = renWin\<lparr>Attributes := (Attributes renWin)(method \<mapsto> args)\<rparr>"

definition AddRenderer :: "renderer_ref \<Rightarrow> vtkRenderWindow_object \<Rightarrow> vtkRenderWindow_object" where
  "AddRenderer r renWin = renWin\<lparr>Renderers := Renderers renWin @ [r]\<rparr>"

fun GetFirstRenderer :: "vtkRenderWindow_object \<Rightarrow> renderer_ref option" where
  "GetFirstRenderer renWin = (case Renderers renWin of [] \<Rightarrow> None | r # rs \<Rightarrow> Some r)"

section \<open>Construction of the window (window_impl::window_impl)\<close>

text \<open>
  The preprocessor conditions of the window's code are constants of the build. \<open>WIN32\<close>,
  \<open>ANDROID\<close>, \<open>APPLE\<close> and \<open>EMSCRIPTEN\<close> stand for the platform macros \<open>_WIN32\<close>,
  \<open>__ANDROID__\<close>, \<open>__APPLE__\<close> and \<open>__EMSCRIPTEN__\<close>; the two version fields are the truth
  of \<open>VTK_VERSION_NUMBER >= VTK_VERSION_CHECK(9, 3, 20240914)\<close> and of the same test with
  \<open>20240606\<close>. \<open>NDEBUG\<close> turns \<open>assert\<close> off. \<open>default_class\<close> is the class of the object
  that \<open>vtkRenderWindow::New()\<close> creates on the platform.
\<close>

record build =
  F3D_MODULE_EXTERNAL_RENDERING :: bool
  VTK_OPENGL_HAS_EGL :: bool
  VTK_USE_X :: bool
  WIN32 :: bool
  ANDROID :: bool
  APPLE :: bool
  EMSCRIPTEN :: bool
  VTK_VERSION_GE_9_3_20240914 :: bool
  VTK_VERSION_GE_9_3_20240606 :: bool
  NDEBUG :: bool
  default_class :: vtk_class

text \<open>
  What the constructor can end with instead of a window: the \<open>engine::no_window_exception\<close>,
  a failed \<open>assert\<close>, a call through a null \<open>RenWin\<close> (when \<open>assert\<close> is off), and the
  \<open>std::out_of_range\<close> of \<open>std::stoi\<close>, which \<open>IsWindowsBuildNumberOrGreater\<close> does not catch.
\<close>

datatype window_error =
    no_window_exception string
  | assertion_failed string
  | null_pointer_dereference
  | out_of_range

text \<open>
  The Windows registry values that the theme helpers read (\<open>None\<close>: the read fails), and
  the result of \<open>std::stoi\<close> on the build number, a function of the standard library.
\<close>

datatype stoi_result = Parsed int | invalid_argument string | stoi_out_of_range

record windows_env =
  CurrentBuildNumber :: "string option"
  AppsUseLightTheme :: "nat option"
  SystemUsesLightTheme :: "nat option"
  stoi :: "string \<Rightarrow> stoi_result"

datatype effect = debug string | DwmSetWindowAttribute_USE_IMMERSIVE_DARK_MODE bool

definition IMMERSIVE_DARK_MODE_SUPPORTED_SINCE :: int where
  "IMMERSIVE_DARK_MODE_SUPPORTED_SINCE = 19041"

definition IsWindowsBuildNumberOrGreater ::
  "windows_env \<Rightarrow> int \<Rightarrow> window_error + (bool \<times> effect list)" where
  "IsWindowsBuildNumberOrGreater env buildNumber =
     (case CurrentBuildNumber env of
        Some v \<Rightarrow>
          (case stoi env v of
             Parsed n \<Rightarrow> Inr (n \<ge> buildNumber, [])
           | invalid_argument what \<Rightarrow>
               Inr (False, [debug (''Error parsing CurrentBuildNumber'' @ what)])
           | stoi_out_of_range \<Rightarrow> Inl out_of_range)
      | None \<Rightarrow> Inr (False, [debug ''Error opening registry key.'']))"

definition IsWindowsInDarkMode :: "windows_env \<Rightarrow> bool" where
  "IsWindowsInDarkMode env =
     (case AppsUseLightTheme env of
        Some v \<Rightarrow> v = 0
      | None \<Rightarrow> (case SystemUsesLightTheme env of Some v \<Rightarrow> v = 0 | None \<Rightarrow> False))"

definition UpdateTheme :: "build \<Rightarrow> windows_env \<Rightarrow> window_error + effect list" where
  "UpdateTheme cfg env =
     (if WIN32 cfg then
        (case IsWindowsBuildNumberOrGreater env IMMERSIVE_DARK_MODE_SUPPORTED_SINCE of
           Inl e \<Rightarrow> Inl e
         | Inr (supported, logged) \<Rightarrow>
             if supported
             then Inr (logged @ [DwmSetWindowAttribute_USE_IMMERSIVE_DARK_MODE (IsWindowsInDarkMode env)])
             else Inr logged)
      else Inr [])"

text \<open>
  The members of \<open>window_impl::internals\<close>. \<open>Camera\<close> holds the renderer that
  \<open>SetVTKRenderer\<close> bound to the camera object; \<open>Renderer\<close> is the state of the renderer;
  \<open>Options\<close> is the options snapshot the reference points to; \<open>GetProcAddress\<close> is the
  symbol-loading callback (\<open>None\<close>: an empty \<open>std::function\<close>). A value of this record is a
  constructed window: its \<open>RenWin\<close> is not null.
\<close>

record window_impl =
  Camera :: renderer_ref
  RenWin :: vtkRenderWindow_object
  Renderer :: settings
  Options :: options
  CachePath :: string
  GetProcAddress :: "(string \<Rightarrow> nat) option"

text \<open>
  The first part of the constructor: the chain of tests on the requested type, which
  assigns \<open>RenWin\<close> or throws. The result \<open>Inr None\<close> is a \<open>RenWin\<close> left null. The macro calls
  \<open>AutomaticWindowPositionAndResizeOff()\<close> and the like are the setter with \<open>false\<close> or
  \<open>true\<close>.
\<close>

definition select_RenWin :: "build \<Rightarrow> Type option \<Rightarrow> window_error + vtkRenderWindow_object option" where
  "select_RenWin cfg requested =
     (if requested = Some NONE then Inr (Some (New vtkF3DNoRenderWindow))
      else if requested = Some EXTERNAL then
        (if F3D_MODULE_EXTERNAL_RENDERING cfg
         then Inr (Some (Set ''SetAutomaticWindowPositionAndResize'' [VBool False]
                          (New vtkExternalOpenGLRenderWindow)))
         else Inl (no_window_exception
                ''Window type is external but F3D_MODULE_EXTERNAL_RENDERING is not enabled''))
      else if requested = Some EGL then
        (if VTK_OPENGL_HAS_EGL cfg \<and> VTK_VERSION_GE_9_3_20240914 cfg
         then Inr (Some (if ANDROID cfg
                         then Set ''SetWindowInfo'' [VString ''jni''] (New vtkEGLRenderWindow)
                         else New vtkEGLRenderWindow))
         else Inl (no_window_exception
                ''Window type is EGL but VTK EGL support is not enabled''))
      else if requested = Some OSMESA then
        (if VTK_VERSION_GE_9_3_20240914 cfg
         then Inr (Some (New vtkOSOpenGLRenderWindow))
         else Inl (no_window_exception
                ''Window type is OSMesa but VTK OSMesa support is not enabled''))
      else if requested = Some GLX then
        (if VTK_USE_X cfg \<and> VTK_VERSION_GE_9_3_20240914 cfg
         then Inr (Some (New vtkXOpenGLRenderWindow))
         else Inl (no_window_exception
                ''Window type is GLX but VTK GLX support is not enabled''))
      else if requested = Some WGL then
        (if WIN32 cfg then Inr (Some (New vtkWin32OpenGLRenderWindow)) else Inr None)
      else if requested = None then Inr (Some (New (default_class cfg)))
      else Inr None)"

text \<open>
  The second part: the calls on the selected render window, from the installation of the
  symbol loader to \<open>AddRenderer\<close>.
\<close>

definition install_loader ::
  "build \<Rightarrow> (string \<Rightarrow> nat) option \<Rightarrow> vtkRenderWindow_object \<Rightarrow> vtkRenderWindow_object" where
  "install_loader cfg getProcAddress renWin =
     (if VTK_VERSION_GE_9_3_20240914 cfg \<and> IsA renWin ''vtkOpenGLRenderWindow'' then
        (let loaded = (case getProcAddress of
                         Some fn \<Rightarrow> Set ''SetOpenGLSymbolLoader'' [] renWin
                       | None \<Rightarrow> renWin)
         in if F3D_MODULE_EXTERNAL_RENDERING cfg \<and> IsA loaded ''vtkExternalOpenGLRenderWindow''
            then Set ''OpenGLInit'' [] loaded
            else loaded)
      else renWin)"

definition configure_RenWin ::
  "build \<Rightarrow> bool \<Rightarrow> (string \<Rightarrow> nat) option \<Rightarrow> vtkRenderWindow_object \<Rightarrow> vtkRenderWindow_object" where
  "configure_RenWin cfg offscreen getProcAddress renWin =
     (let w1 = install_loader cfg getProcAddress renWin;
          w2 = (if VTK_VERSION_GE_9_3_20240606 cfg
                then Set ''SetEnableTranslucentSurface'' [VBool True] w1 else w1);
          w3 = Set ''SetMultiSamples'' [VInt 0] w2;
          w4 = Set ''SetOffScreenRendering'' [VBool offscreen] w3;
          w5 = Set ''SetWindowName'' [VString ''f3d''] w4
      in AddRenderer Internals_Renderer w5)"

text \<open>
  \<open>window_impl::window_impl(options, type, offscreen, getProcAddress)\<close>, the requested
  type written \<open>requested\<close>. The result is the exception or failure that ends the
  construction, or the constructed window with what the constructor did outside of it
  (debug log lines, the window attribute set on Windows). \<open>Initialize()\<close> calls
  \<open>Renderer->Initialize()\<close>.
\<close>

definition window_impl_ctor ::
  "build \<Rightarrow> windows_env \<Rightarrow> options \<Rightarrow> Type option \<Rightarrow> bool \<Rightarrow> (string \<Rightarrow> nat) option
     \<Rightarrow> window_error + (window_impl \<times> effect list)" where
  "window_impl_ctor cfg env opts requested offscreen getProcAddress =
     (case select_RenWin cfg requested of
        Inl e \<Rightarrow> Inl e
      | Inr None \<Rightarrow>
          if NDEBUG cfg then Inl null_pointer_dereference
          else Inl (assertion_failed ''this->Internals->RenWin != nullptr'')
      | Inr (Some renWin) \<Rightarrow>
          (let this = \<lparr>Camera = Internals_Renderer,
                       RenWin = configure_RenWin cfg offscreen getProcAddress renWin,
                       Renderer = [''Initialize'' \<mapsto> []],
                       Options = opts,
                       CachePath = [],
                       GetProcAddress = getProcAddress\<rparr>
           in case UpdateTheme cfg env of
                Inl e \<Rightarrow> Inl e
              | Inr effects \<Rightarrow>
                  Inr (this, effects @
                    [debug (''VTK window class type is '' @ GetClassName (Class (RenWin this)))])))"

section \<open>Queries and coordinate conversion\<close>

text \<open>\<open>window_impl::getType()\<close>: the chain of class tests, each under its platform macro.\<close>

definition getType :: "build \<Rightarrow> window_impl \<Rightarrow> Type" where
  "getType cfg this =
     (if IsA (RenWin this) ''vtkOSOpenGLRenderWindow'' then OSMESA
      else if VTK_USE_X cfg \<and> IsA (RenWin this) ''vtkXOpenGLRenderWindow'' then GLX
      else if WIN32 cfg \<and> IsA (RenWin this) ''vtkWin32OpenGLRenderWindow'' then WGL
      else if APPLE cfg \<and> IsA (RenWin this) ''vtkCocoaRenderWindow'' then COCOA
      else if VTK_OPENGL_HAS_EGL cfg \<and> IsA (RenWin this) ''vtkEGLRenderWindow'' then EGL
      else if EMSCRIPTEN cfg \<and> IsA (RenWin this) ''vtkWebAssemblyOpenGLRenderWindow'' then WASM
      else if IsA (RenWin this) ''vtkF3DNoRenderWindow'' then NONE
      else UNKNOWN)"

text \<open>
  Points are triples of doubles, taken as real numbers (rounding, infinities and NaN
  are outside the model). \<open>DisplayToWorld\<close> and \<open>WorldToDisplay\<close> are the toolkit's
  conversions with the renderer's current camera: \<open>SetDisplayPoint\<close>, \<open>DisplayToWorld\<close>,
  \<open>GetWorldPoint\<close> give the four homogeneous world coordinates of a display point.

  \<open>getWorldFromDisplay\<close> returns the point together with the divisors of the divisions it
  executed, in order.
\<close>

type_synonym point3_t = "real \<times> real \<times> real"

definition homogeneousThreshold :: real where
  "homogeneousThreshold = 1 / 10 ^ 7"

definition getWorldFromDisplay ::
  "(point3_t \<Rightarrow> real \<times> real \<times> real \<times> real) \<Rightarrow> point3_t \<Rightarrow> point3_t \<times> real list" where
  "getWorldFromDisplay DisplayToWorld displayPoint =
     (case DisplayToWorld displayPoint of
        (w0, w1, w2, w3) \<Rightarrow>
          if w3 > homogeneousThreshold
          then ((w0 / w3, w1 / w3, w2 / w3), [w3, w3, w3])
          else ((0, 0, 0), []))"

definition getDisplayFromWorld ::
  "(real \<times> real \<times> real \<times> real \<Rightarrow> point3_t) \<Rightarrow> point3_t \<Rightarrow> point3_t" where
  "getDisplayFromWorld WorldToDisplay worldPoint =
     (case worldPoint of (x, y, z) \<Rightarrow> WorldToDisplay (x, y, z, 1))"

section \<open>Option synchronization and rendering\<close>

text \<open>
  A call that the window makes on an object it does not implement: the receiver, the
  method and the arguments.
\<close>

datatype receiver = vtksys_SystemTools | on_Renderer | on_RenWin

datatype call = Call receiver string "val list"

text \<open>
  \<open>window_impl::UpdateDynamicOptions()\<close>, as the calls it makes, in order.
  \<open>GetCachePath()\<close> calls \<open>MakeDirectory\<close> on the cache path and returns the path.
  \<open>SetBackground\<close> receives a pointer and reads three doubles from it.
\<close>

definition UpdateDynamicOptions_calls :: "window_impl \<Rightarrow> call list" where
  "UpdateDynamicOptions_calls this =
     (if IsA (RenWin this) ''vtkF3DNoRenderWindow'' then [Call on_Renderer ''UpdateActors'' []]
      else
       (let opt = Options this in
        [Call vtksys_SystemTools ''MakeDirectory'' [VString (CachePath this)],
         Call on_Renderer ''SetCachePath'' [VString (CachePath this)],
         Call on_Renderer ''UpdateLights'' [],
         Call on_Renderer ''ShowAxis'' [axis (interactor opt)],
         Call on_Renderer ''SetUseTrackball'' [trackball (interactor opt)],
         Call on_Renderer ''SetInvertZoom'' [invert_zoom (interactor opt)],
         Call on_Renderer ''SetPointSpritesProperties''
           [VSplatType (if type (point_sprites (model opt)) = ''gaussian''
                        then GAUSSIAN else SPHERE),
            VInt (to_int (size (point_sprites (model opt))))],
         Call on_Renderer ''SetLineWidth'' [line_width (render opt)],
         Call on_Renderer ''SetPointSize'' [point_size (render opt)],
         Call on_Renderer ''ShowEdge'' [show_edges (render opt)],
         Call on_Renderer ''ShowTimer'' [fps (ui opt)],
         Call on_Renderer ''ShowFilename'' [filename (ui opt)],
         Call on_Renderer ''SetFilenameInfo'' [filename_info (ui opt)],
         Call on_Renderer ''ShowMetaData'' [metadata (ui opt)],
         Call on_Renderer ''ShowCheatSheet'' [cheatsheet (ui opt)],
         Call on_Renderer ''ShowDropZone'' [dropzone (ui opt)],
         Call on_Renderer ''SetDropZoneInfo'' [dropzone_info (ui opt)],
         Call on_Renderer ''SetUseRaytracing''
           [raytracing_options.enable (raytracing (render opt))],
         Call on_Renderer ''SetRaytracingSamples'' [samples (raytracing (render opt))],
         Call on_Renderer ''SetUseRaytracingDenoiser'' [denoise (raytracing (render opt))],
         Call on_Renderer ''SetUseSSAOPass'' [ambient_occlusion (effect (render opt))],
         Call on_Renderer ''SetUseFXAAPass'' [anti_aliasing (effect (render opt))],
         Call on_Renderer ''SetUseToneMappingPass'' [tone_mapping (effect (render opt))],
         Call on_Renderer ''SetUseDepthPeelingPass''
           [translucency_support (effect (render opt))],
         Call on_Renderer ''SetBackfaceType'' [backface_type (render opt)],
         Call on_Renderer ''SetFinalShader'' [final_shader (effect (render opt))],
         Call on_Renderer ''SetBackground''
           [VDoubles (take 3 (background_options.color (background (render opt))))],
         Call on_Renderer ''SetUseBlurBackground'' [blur (background (render opt))],
         Call on_Renderer ''SetBlurCircleOfConfusionRadius''
           [blur_coc (background (render opt))],
         Call on_Renderer ''SetLightIntensity'' [intensity (light (render opt))],
         Call on_Renderer ''SetHDRIFile'' [hdri_file (hdri (render opt))],
         Call on_Renderer ''SetUseImageBasedLighting'' [ambient (hdri (render opt))],
         Call on_Renderer ''ShowHDRISkybox'' [skybox (background (render opt))],
         Call on_Renderer ''SetFontFile'' [font_file (ui opt)],
         Call on_Renderer ''SetGridUnitSquare'' [unit (grid (render opt))],
         Call on_Renderer ''SetGridSubdivisions'' [subdivisions (grid (render opt))],
         Call on_Renderer ''SetGridAbsolute'' [absolute (grid (render opt))],
         Call on_Renderer ''ShowGrid'' [grid_options.enable (grid (render opt))],
         Call on_Renderer ''SetGridColor'' [grid_options.color (grid (render opt))]]
        @ (case index (camera (scene opt)) of
             None \<Rightarrow>
               [Call on_Renderer ''SetUseOrthographicProjection''
                  [orthographic (camera (scene opt))]]
           | Some i \<Rightarrow> [])
        @
        [Call on_Renderer ''SetSurfaceColor'' [rgb (model_options.color (model opt))],
         Call on_Renderer ''SetOpacity'' [opacity (model_options.color (model opt))],
         Call on_Renderer ''SetTextureBaseColor''
           [color_options.texture (model_options.color (model opt))],
         Call on_Renderer ''SetRoughness'' [roughness (material (model opt))],
         Call on_Renderer ''SetMetallic'' [metallic (material (model opt))],
         Call on_Renderer ''SetTextureMaterial''
           [material_options.texture (material (model opt))],
         Call on_Renderer ''SetTextureEmissive''
           [emissive_options.texture (emissive (model opt))],
         Call on_Renderer ''SetEmissiveFactor'' [factor (emissive (model opt))],
         Call on_Renderer ''SetTextureNormal'' [normal_options.texture (normal (model opt))],
         Call on_Renderer ''SetNormalScale'' [scale (normal (model opt))],
         Call on_Renderer ''SetTextureMatCap'' [matcap_options.texture (matcap (model opt))],
         Call on_Renderer ''SetEnableColoring'' [scivis_options.enable (scivis (model opt))],
         Call on_Renderer ''SetUseCellColoring'' [cells (scivis (model opt))],
         Call on_Renderer ''SetArrayNameForColoring'' [array_name (scivis (model opt))],
         Call on_Renderer ''SetComponentForColoring'' [component (scivis (model opt))],
         Call on_Renderer ''SetScalarBarRange'' [scivis_options.range (scivis (model opt))],
         Call on_Renderer ''SetColormap'' [colormap (scivis (model opt))],
         Call on_Renderer ''ShowScalarBar'' [scalar_bar (ui opt)],
         Call on_Renderer ''SetUsePointSprites''
           [point_sprites_options.enable (point_sprites (model opt))],
         Call on_Renderer ''SetUseVolume'' [volume_options.enable (volume (model opt))],
         Call on_Renderer ''SetUseInverseOpacityFunction'' [inverse (volume (model opt))],
         Call on_Renderer ''UpdateActors'' []]))"

text \<open>
  Modelled from the spec: the renderer class \<open>vtkF3DRenderer\<close> and the toolkit's render
  window are missing from the sources at hand. The spec describes the synchronizer as
  copying configuration fields onto the renderer "via one setter call per field"; so a
  call stores its arguments as the receiver's value for that method, replacing the value
  of an earlier call of the same method. A call on \<open>vtksys::SystemTools\<close> acts on the file
  system and leaves the window as it is.
\<close>

fun invoke :: "call \<Rightarrow> window_impl \<Rightarrow> window_impl" where
  "invoke (Call on_Renderer method args) this =
     this\<lparr>Renderer := (Renderer this)(method \<mapsto> args)\<rparr>"
| "invoke (Call on_RenWin method args) this = this\<lparr>RenWin := Set method args (RenWin this)\<rparr>"
| "invoke (Call vtksys_SystemTools method args) this = this"

definition run :: "call list \<Rightarrow> window_impl \<Rightarrow> window_impl" where
  "run calls this = foldl (\<lambda>w c. invoke c w) this calls"

definition UpdateDynamicOptions :: "window_impl \<Rightarrow> window_impl" where
  "UpdateDynamicOptions this = run (UpdateDynamicOptions_calls this) this"

text \<open>
  \<open>window_impl::render()\<close>: the calls it makes, and the returned boolean with the window
  after them.
\<close>

definition render_calls :: "window_impl \<Rightarrow> call list" where
  "render_calls this = UpdateDynamicOptions_calls this @ [Call on_RenWin ''Render'' []]"

definition window_impl_render :: "window_impl \<Rightarrow> bool \<times> window_impl" where
  "window_impl_render this =
     (let synced = UpdateDynamicOptions this
      in (True, invoke (Call on_RenWin ''Render'' []) synced))"

text \<open>
  \<open>window_impl::renderToImage(noBackground)\<close>. The two local toolkit objects, the
  window-to-image filter and the image exporter, are states of the same kind as the
  renderer's. \<open>renderToImage_setup\<close> is the function up to the first query of the
  exporter: it gives the window, the filter and the exporter as they are when the toolkit
  executes the capture. \<open>SetInputBufferTypeToRGBA()\<close> is \<open>SetInputBufferType(VTK_RGBA)\<close>,
  \<open>ImageLowerLeftOn()\<close> is \<open>SetImageLowerLeft(true)\<close>, and \<open>SetBackground(0, 0, 0)\<close> stores the
  same three doubles as the pointer overload. \<open>GetFirstRenderer()\<close> of a window without
  renderers is null.
\<close>

definition renderToImage_setup ::
  "bool \<Rightarrow> window_impl \<Rightarrow> window_error + (window_impl \<times> settings \<times> settings)" where
  "renderToImage_setup noBackground this =
     (let synced = UpdateDynamicOptions this;
          rtW2if = [''SetInput'' \<mapsto> []];
          exporter = [''SetInputConnection'' \<mapsto> [], ''SetImageLowerLeft'' \<mapsto> [VBool True]]
      in if noBackground then
           (case GetFirstRenderer (RenWin synced) of
              None \<Rightarrow> Inl null_pointer_dereference
            | Some Internals_Renderer \<Rightarrow>
                Inr (invoke (Call on_Renderer ''SetBackground'' [VDoubles [0, 0, 0]]) synced,
                     rtW2if(''SetInputBufferType'' \<mapsto> [VBufferType VTK_RGBA]),
                     exporter))
         else Inr (synced, rtW2if, exporter))"

text \<open>
  The capture itself is the toolkit's: from the window, the filter and the exporter it
  gives the data dimensions, the number of scalar components and the exported bytes.
\<close>

record exported =
  DataDimensions :: "int \<times> int \<times> int"
  DataNumberOfScalarComponents :: int
  Exported :: "nat list"

record image =
  width :: int
  height :: int
  channelCount :: int
  content :: "nat list"

definition renderToImage ::
  "(window_impl \<Rightarrow> settings \<Rightarrow> settings \<Rightarrow> exported) \<Rightarrow> bool \<Rightarrow> window_impl
     \<Rightarrow> window_error + (image \<times> window_impl)" where
  "renderToImage capture noBackground this =
     (case renderToImage_setup noBackground this of
        Inl e \<Rightarrow> Inl e
      | Inr (ready, rtW2if, exporter) \<Rightarrow>
          (let out = capture ready rtW2if exporter
           in case DataDimensions out of
                (d0, d1, d2) \<Rightarrow>
                  Inr (\<lparr>width = d0, height = d1,
                        channelCount = DataNumberOfScalarComponents out,
                        content = Exported out\<rparr>, ready)))"

section \<open>Concrete inputs\<close>

text \<open>
  A command-line library for the examples: it rejects the flag \<open>--bogus\<close>, counts \<open>--help\<close>,
  and takes the last argument as the input file.
\<close>

definition example_cxxopts :: cxxopts where
  "example_cxxopts =
     \<lparr>help_text = ''Usage: f3d [OPTION...] input_file'',
      parse = (\<lambda>argv this.
        if ''--bogus'' \<in> set argv
        then Inl (OptionException ''Option bogus does not exist'')
        else Inr (this,
               \<lparr>count = (\<lambda>name. if name = ''help'' \<and> ''--help'' \<in> set argv then 1 else 0),
                as_string = (\<lambda>name. Inr (last argv))\<rparr>))\<rparr>"

definition example_F3DOptions :: F3DOptions where
  "example_F3DOptions =
     \<lparr>Verbose = False, Axis = False, Grid = False, Normals = False,
      BackgroundColor = [], WindowSize = [], Scalars = [], Component = 0, Cells = False,
      Range = [], HideBar = False, DepthPeeling = False, FXAA = False, SSAO = False,
      Input = []\<rparr>"

text \<open>A file system with one configuration file, and a parser that accepts only \<open>{}\<close>.\<close>

definition example_files :: "string \<Rightarrow> string option" where
  "example_files = [''config.json'' \<mapsto> ''{}'', ''broken.json'' \<mapsto> ''{'']"

definition example_parseFromStream :: "string \<Rightarrow> string + unit" where
  "example_parseFromStream file = (if file = ''{}'' then Inr () else Inl ''syntax error'')"

text \<open>An options snapshot.\<close>

definition example_options :: options where
  "example_options =
     \<lparr>interactor = \<lparr>axis = VBool False, trackball = VBool False, invert_zoom = VBool False\<rparr>,
      model =
        \<lparr>point_sprites =
           \<lparr>point_sprites_options.enable = VBool False, type = ''sphere'', size = VDouble 10\<rparr>,
         color = \<lparr>rgb = VDoubles [1, 1, 1], opacity = VDouble 1,
                  color_options.texture = VString []\<rparr>,
         material = \<lparr>roughness = VDouble (3 / 10), metallic = VDouble 0,
                     material_options.texture = VString []\<rparr>,
         emissive = \<lparr>emissive_options.texture = VString [], factor = VDoubles [1, 1, 1]\<rparr>,
         normal = \<lparr>normal_options.texture = VString [], scale = VDouble 1\<rparr>,
         matcap = \<lparr>matcap_options.texture = VString []\<rparr>,
         scivis = \<lparr>scivis_options.enable = VBool False, cells = VBool False,
                   array_name = VOptional None, component = VInt (- 1),
                   range = VOptional None, colormap = VDoubles [0, 0, 0, 0, 1, 1, 1, 1]\<rparr>,
         volume = \<lparr>volume_options.enable = VBool False, inverse = VBool False\<rparr>\<rparr>,
      render =
        \<lparr>line_width = VDouble 1, point_size = VDouble 10, show_edges = VBool False,
         backface_type = VString ''default'',
         raytracing = \<lparr>raytracing_options.enable = VBool False, samples = VInt 5,
                       denoise = VBool False\<rparr>,
         effect = \<lparr>ambient_occlusion = VBool False, anti_aliasing = VBool False,
                   tone_mapping = VBool False, translucency_support = VBool False,
                   final_shader = VString []\<rparr>,
         background = \<lparr>background_options.color = [1 / 5, 1 / 5, 1 / 5], blur = VBool False,
                       blur_coc = VDouble 20, skybox = VBool False\<rparr>,
         light = \<lparr>intensity = VDouble 1\<rparr>,
         hdri = \<lparr>hdri_file = VString [], ambient = VBool False\<rparr>,
         grid = \<lparr>unit = VDouble 0, subdivisions = VInt 10, absolute = VBool False,
                 grid_options.enable = VBool False, grid_options.color = VDoubles [0, 0, 0]\<rparr>\<rparr>,
      ui = \<lparr>fps = VBool False, filename = VBool False, filename_info = VString [],
            metadata = VBool False, cheatsheet = VBool False, dropzone = VBool False,
            dropzone_info = VString [], font_file = VString [], scalar_bar = VBool False\<rparr>,
      scene = \<lparr>up_direction = VString ''+Y'',
               camera = \<lparr>index = None, orthographic = VBool False\<rparr>\<rparr>\<rparr>"

text \<open>
  Two builds: one for Linux with X, EGL, a recent toolkit and no external rendering
  module, and the same with the external rendering module. No Windows registry.
\<close>

definition linux_build :: build where
  "linux_build =
     \<lparr>F3D_MODULE_EXTERNAL_RENDERING = False, VTK_OPENGL_HAS_EGL = True, VTK_USE_X = True,
      WIN32 = False, ANDROID = False, APPLE = False, EMSCRIPTEN = False,
      VTK_VERSION_GE_9_3_20240914 = True, VTK_VERSION_GE_9_3_20240606 = True,
      NDEBUG = False, default_class = vtkXOpenGLRenderWindow\<rparr>"

definition external_build :: build where
  "external_build = linux_build\<lparr>F3D_MODULE_EXTERNAL_RENDERING := True\<rparr>"

definition no_registry :: windows_env where
  "no_registry =
     \<lparr>CurrentBuildNumber = None, AppsUseLightTheme = None, SystemUsesLightTheme = None,
      stoi = (\<lambda>s. invalid_argument ''stoi'')\<rparr>"

text \<open>
  Construction followed by \<open>getType()\<close>: the reported type of the window constructed for a
  request, or the failure of the construction.
\<close>

definition constructed_type ::
  "build \<Rightarrow> windows_env \<Rightarrow> options \<Rightarrow> Type option \<Rightarrow> bool \<Rightarrow> (string \<Rightarrow> nat) option
     \<Rightarrow> window_error + Type" where
  "constructed_type cfg env opts requested offscreen getProcAddress =
     (case window_impl_ctor cfg env opts requested offscreen getProcAddress of
        Inl e \<Rightarrow> Inl e
      | Inr (this, effects) \<Rightarrow> Inr (getType cfg this))"

text \<open>
  Whether the constructor can build a window of a type in a build: the preprocessor
  condition of the type's branch.
\<close>

fun compiled_in :: "build \<Rightarrow> Type \<Rightarrow> bool" where
  "compiled_in cfg NONE = True"
| "compiled_in cfg EXTERNAL = F3D_MODULE_EXTERNAL_RENDERING cfg"
| "compiled_in cfg EGL = (VTK_OPENGL_HAS_EGL cfg \<and> VTK_VERSION_GE_9_3_20240914 cfg)"
| "compiled_in cfg OSMESA = VTK_VERSION_GE_9_3_20240914 cfg"
| "compiled_in cfg GLX = (VTK_USE_X cfg \<and> VTK_VERSION_GE_9_3_20240914 cfg)"
| "compiled_in cfg WGL = WIN32 cfg"
| "compiled_in cfg COCOA = False"
| "compiled_in cfg WASM = False"
| "compiled_in cfg UNKNOWN = False"

text \<open>
  The class that the constructor selects for a requested type, in a build where the type
  is compiled in.
\<close>

fun class_of :: "Type \<Rightarrow> vtk_class" where
  "class_of NONE = vtkF3DNoRenderWindow"
| "class_of EXTERNAL = vtkExternalOpenGLRenderWindow"
| "class_of EGL = vtkEGLRenderWindow"
| "class_of OSMESA = vtkOSOpenGLRenderWindow"
| "class_of GLX = vtkXOpenGLRenderWindow"
| "class_of WGL = vtkWin32OpenGLRenderWindow"
| "class_of COCOA = vtkCocoaRenderWindow"
| "class_of WASM = vtkWebAssemblyOpenGLRenderWindow"
| "class_of UNKNOWN = vtkRenderWindow"

text \<open>
  The renderer settings that a list of calls leaves, from the settings before it: the
  calls on the renderer, each stored under its method.
\<close>

fun pushed :: "call list \<Rightarrow> settings \<Rightarrow> settings" where
  "pushed [] s = s"
| "pushed (Call on_Renderer method args # calls) s = pushed calls (s(method \<mapsto> args))"
| "pushed (Call on_RenWin method args # calls) s = pushed calls s"
| "pushed (Call vtksys_SystemTools method args # calls) s = pushed calls s"

fun not_on_RenWin :: "call \<Rightarrow> bool" where
  "not_on_RenWin (Call on_RenWin method args) = False"
| "not_on_RenWin (Call on_Renderer method args) = True"
| "not_on_RenWin (Call vtksys_SystemTools method args) = True"

text \<open>
  The windows that the constructor builds in the Linux build for the requests \<open>NONE\<close>
  (offscreen) and \<open>GLX\<close>, without a symbol loader.
\<close>

definition none_window :: window_impl where
  "none_window =
     \<lparr>Camera = Internals_Renderer,
      RenWin = configure_RenWin linux_build True None (New vtkF3DNoRenderWindow),
      Renderer = [''Initialize'' \<mapsto> []],
      Options = example_options,
      CachePath = [],
      GetProcAddress = None\<rparr>"

definition glx_window :: window_impl where
  "glx_window =
     \<lparr>Camera = Internals_Renderer,
      RenWin = configure_RenWin linux_build False None (New vtkXOpenGLRenderWindow),
      Renderer = [''Initialize'' \<mapsto> []],
      Options = example_options,
      CachePath = [],
      GetProcAddress = None\<rparr>"

text \<open>A capture that gives a two by two image of four components.\<close>

definition example_capture :: "window_impl \<Rightarrow> settings \<Rightarrow> settings \<Rightarrow> exported" where
  "example_capture ready rtW2if exporter =
     \<lparr>DataDimensions = (2, 2, 1), DataNumberOfScalarComponents = 4,
      Exported = replicate 16 0\<rparr>"

section \<open>Properties of the option parser\<close>

lemma catch_OptionException_not_Returned: "snd (catch_OptionException e) \<noteq> Returned r"
  by (cases e) simp_all

text \<open>
  C10. Whenever \<open>InitializeFromArgs\<close> returns to its caller, the value is \<open>true\<close>: no run
  returns \<open>false\<close>. Each failure path ends the process through \<open>exit\<close>: a lone program
  name (no arguments) and an option exception of the parser with \<open>EXIT_FAILURE\<close>, a
  help request with \<open>EXIT_SUCCESS\<close>.
\<close>

theorem InitializeFromArgs_returns_only_true:
  "snd (InitializeFromArgs lib argv this) \<noteq> Returned (False, this')
   \<and> (length argv = 1 \<longrightarrow> snd (InitializeFromArgs lib argv this) = Exited EXIT_FAILURE)
   \<and> (1 < length argv \<and> parse lib argv this = Inl (OptionException what)
        \<longrightarrow> snd (InitializeFromArgs lib argv this) = Exited EXIT_FAILURE)
   \<and> (1 < length argv \<and> parse lib argv this = Inr (parsed, result) \<and> 0 < count result ''help''
        \<longrightarrow> snd (InitializeFromArgs lib argv this) = Exited EXIT_SUCCESS)"
proof -
  have ret: "snd (InitializeFromArgs lib argv this) \<noteq> Returned (False, this')"
    by (auto simp: InitializeFromArgs_def catch_OptionException_not_Returned
          split: sum.splits prod.splits)
  have none: "length argv = 1 \<longrightarrow> snd (InitializeFromArgs lib argv this) = Exited EXIT_FAILURE"
    by (auto simp: InitializeFromArgs_def)
  have err: "1 < length argv \<and> parse lib argv this = Inl (OptionException what)
        \<longrightarrow> snd (InitializeFromArgs lib argv this) = Exited EXIT_FAILURE"
    by (auto simp: InitializeFromArgs_def)
  have hlp: "1 < length argv \<and> parse lib argv this = Inr (parsed, result)
        \<and> 0 < count result ''help''
        \<longrightarrow> snd (InitializeFromArgs lib argv this) = Exited EXIT_SUCCESS"
    by (auto simp: InitializeFromArgs_def)
  from ret none err hlp show ?thesis by blast
qed

theorem InitializeFromArgs_returns_only_true_witness:
  "snd (InitializeFromArgs example_cxxopts [''f3d'', ''cow.vtp''] example_F3DOptions)
      = Returned (True, example_F3DOptions\<lparr>Input := ''cow.vtp''\<rparr>)
   \<and> length [''f3d''] = 1
   \<and> snd (InitializeFromArgs example_cxxopts [''f3d''] example_F3DOptions) = Exited EXIT_FAILURE
   \<and> 1 < length [''f3d'', ''--bogus'']
   \<and> parse example_cxxopts [''f3d'', ''--bogus''] example_F3DOptions
        = Inl (OptionException ''Option bogus does not exist'')
   \<and> snd (InitializeFromArgs example_cxxopts [''f3d'', ''--bogus''] example_F3DOptions)
        = Exited EXIT_FAILURE
   \<and> 1 < length [''f3d'', ''--help'']
   \<and> 0 < count (snd (projr (parse example_cxxopts [''f3d'', ''--help''] example_F3DOptions)))
            ''help''
   \<and> snd (InitializeFromArgs example_cxxopts [''f3d'', ''--help''] example_F3DOptions)
        = Exited EXIT_SUCCESS"
proof -
  have p1: "parse example_cxxopts [''f3d'', ''--bogus''] example_F3DOptions
        = Inl (OptionException ''Option bogus does not exist'')"
    by (simp add: example_cxxopts_def)
  have p2: "parse example_cxxopts [''f3d'', ''--help''] example_F3DOptions
        = Inr (example_F3DOptions,
               \<lparr>count = (\<lambda>name. if name = ''help'' \<and> ''--help'' \<in> set [''f3d'', ''--help'']
                                 then 1 else 0),
                as_string = (\<lambda>name. Inr (last [''f3d'', ''--help'']))\<rparr>)"
    by (simp add: example_cxxopts_def)
  have r: "snd (InitializeFromArgs example_cxxopts [''f3d'', ''cow.vtp''] example_F3DOptions)
      = Returned (True, example_F3DOptions\<lparr>Input := ''cow.vtp''\<rparr>)"
    by (simp add: InitializeFromArgs_def example_cxxopts_def)
  note a = InitializeFromArgs_returns_only_true
     [of example_cxxopts "[''f3d'']" example_F3DOptions]
  note b = InitializeFromArgs_returns_only_true
     [of example_cxxopts "[''f3d'', ''--bogus'']" example_F3DOptions _
         "''Option bogus does not exist''"]
  note c = InitializeFromArgs_returns_only_true
     [where lib = example_cxxopts
        and argv = "[''f3d'', ''--help'']" and this = example_F3DOptions
        and parsed = example_F3DOptions
        and result = "\<lparr>count = (\<lambda>name. if name = ''help''
                                          \<and> ''--help'' \<in> set [''f3d'', ''--help'']
                                        then 1 else 0),
                         as_string = (\<lambda>name. Inr (last [''f3d'', ''--help'']))\<rparr>"]
  show ?thesis using a b c p1 p2 r by simp
qed

text \<open>
  C8. \<open>InitializeFromFile\<close> returns \<open>false\<close> exactly when the file cannot be opened or its
  content cannot be parsed, and \<open>true\<close> otherwise; a \<open>false\<close> result comes with one line on
  standard error and a \<open>true\<close> result with none; the options object is left as it was in
  every case.
\<close>

theorem InitializeFromFile_result:
  "snd (snd (InitializeFromFile fs parseFromStream fname this)) = this
   \<and> (fst (snd (InitializeFromFile fs parseFromStream fname this)) = False
        \<longleftrightarrow> (fs fname = None
             \<or> (\<exists>file errs. fs fname = Some file \<and> parseFromStream file = Inl errs)))
   \<and> length (fst (InitializeFromFile fs parseFromStream fname this))
        = (if fst (snd (InitializeFromFile fs parseFromStream fname this)) then 0 else 1)"
  by (auto simp: InitializeFromFile_def split: option.splits sum.splits)

theorem InitializeFromFile_result_witness:
  "InitializeFromFile example_files example_parseFromStream ''config.json'' example_F3DOptions
      = ([], True, example_F3DOptions)
   \<and> fst (snd (InitializeFromFile example_files example_parseFromStream ''broken.json''
                 example_F3DOptions)) = False
   \<and> fst (snd (InitializeFromFile example_files example_parseFromStream ''missing.json''
                 example_F3DOptions)) = False
   \<and> snd (snd (InitializeFromFile example_files example_parseFromStream ''broken.json''
                 example_F3DOptions)) = example_F3DOptions"
proof -
  have ok: "InitializeFromFile example_files example_parseFromStream ''config.json''
              example_F3DOptions = ([], True, example_F3DOptions)"
    by (simp add: InitializeFromFile_def example_files_def example_parseFromStream_def)
  have broken: "example_files ''broken.json'' = Some ''{''
                \<and> example_parseFromStream ''{'' = Inl ''syntax error''"
    by (simp add: example_files_def example_parseFromStream_def)
  have missing: "example_files ''missing.json'' = None"
    by (simp add: example_files_def)
  note b = InitializeFromFile_result
     [of example_files example_parseFromStream "''broken.json''" example_F3DOptions]
  note m = InitializeFromFile_result
     [of example_files example_parseFromStream "''missing.json''" example_F3DOptions]
  from b broken have "fst (snd (InitializeFromFile example_files example_parseFromStream
                                  ''broken.json'' example_F3DOptions)) = False"
    by blast
  moreover from m missing
  have "fst (snd (InitializeFromFile example_files example_parseFromStream
                    ''missing.json'' example_F3DOptions)) = False"
    by blast
  ultimately show ?thesis using ok b by simp
qed

section \<open>Properties of the coordinate conversion\<close>

lemma getWorldFromDisplay_divisors:
  "d \<in> set (snd (getWorldFromDisplay DisplayToWorld displayPoint))
     \<Longrightarrow> homogeneousThreshold < d \<and> d \<noteq> 0"
  by (auto simp: getWorldFromDisplay_def homogeneousThreshold_def
        split: prod.splits if_splits)

text \<open>
  C4. For every display point whose unprojected homogeneous coordinate is below the
  threshold \<open>1e-7\<close>, \<open>getWorldFromDisplay\<close> executes no division and returns the origin.
  (Every division it does execute has a divisor above the threshold, by
  \<open>getWorldFromDisplay_divisors\<close>.)
\<close>

theorem getWorldFromDisplay_degenerate:
  "snd (snd (snd (DisplayToWorld displayPoint))) < homogeneousThreshold
     \<Longrightarrow> getWorldFromDisplay DisplayToWorld displayPoint = ((0, 0, 0), [])"
  by (auto simp: getWorldFromDisplay_def split: prod.splits)

theorem getWorldFromDisplay_degenerate_witness:
  "snd (snd (snd ((\<lambda>p. (1, 2, 3, 0)) (5 :: real, 5 :: real, 1 / 2 :: real))))
      < homogeneousThreshold
   \<and> getWorldFromDisplay (\<lambda>p. (1, 2, 3, 0)) (5, 5, 1 / 2) = ((0, 0, 0), [])"
proof -
  have h: "snd (snd (snd ((\<lambda>p. (1, 2, 3, 0)) (5 :: real, 5 :: real, 1 / 2 :: real))))
             < homogeneousThreshold"
    by (simp add: homogeneousThreshold_def)
  from getWorldFromDisplay_degenerate [of "\<lambda>p. (1, 2, 3, 0)" "(5, 5, 1 / 2)", OF h] h
  show ?thesis by simp
qed

section \<open>Properties of the construction\<close>

lemma Class_New [simp]: "Class (New c) = c"
  by (simp add: New_def)

lemma Class_Set [simp]: "Class (Set method args renWin) = Class renWin"
  by (simp add: Set_def)

lemma Class_AddRenderer [simp]: "Class (AddRenderer r renWin) = Class renWin"
  by (simp add: AddRenderer_def)

lemma Class_install_loader [simp]: "Class (install_loader cfg g renWin) = Class renWin"
  by (simp add: install_loader_def Let_def split: option.splits)

lemma Class_configure_RenWin [simp]: "Class (configure_RenWin cfg off g renWin) = Class renWin"
  by (simp add: configure_RenWin_def Let_def)

lemma Renderers_configure_RenWin:
  "Renderers (configure_RenWin cfg off g renWin) = Renderers renWin @ [Internals_Renderer]"
  by (simp add: configure_RenWin_def install_loader_def Let_def Set_def AddRenderer_def
        split: option.splits)

lemma ctor_RenWin:
  "window_impl_ctor cfg env opts requested off g = Inr (this, effects)
   \<Longrightarrow> \<exists>renWin. select_RenWin cfg requested = Inr (Some renWin)
          \<and> RenWin this = configure_RenWin cfg off g renWin"
  by (auto simp: window_impl_ctor_def Let_def split: sum.splits option.splits if_splits)

lemma ctor_has_renderer:
  "window_impl_ctor cfg env opts requested off g = Inr (this, effects)
   \<Longrightarrow> Renderers (RenWin this) \<noteq> []"
  by (auto dest!: ctor_RenWin simp: Renderers_configure_RenWin)

lemma select_RenWin_compiled_in:
  "compiled_in cfg t \<Longrightarrow> \<exists>renWin. select_RenWin cfg (Some t) = Inr (Some renWin)
                                  \<and> Class renWin = class_of t"
  by (cases t) (simp_all add: select_RenWin_def)

lemma ctor_compiled_in:
  assumes "compiled_in cfg t"
  shows "\<exists>this. Class (RenWin this) = class_of t
          \<and> window_impl_ctor cfg env opts (Some t) off g =
              (case UpdateTheme cfg env of
                 Inl e \<Rightarrow> Inl e
               | Inr effects \<Rightarrow>
                   Inr (this, effects @
                     [debug (''VTK window class type is '' @ GetClassName (class_of t))]))"
proof -
  from select_RenWin_compiled_in [OF assms] obtain renWin
    where sel: "select_RenWin cfg (Some t) = Inr (Some renWin)"
      and cls: "Class renWin = class_of t"
    by blast
  show ?thesis
    using sel cls
    by (auto simp: window_impl_ctor_def Let_def split: sum.splits
          intro!: exI [of _ "\<lparr>Camera = Internals_Renderer,
                       RenWin = configure_RenWin cfg off g renWin,
                       Renderer = [''Initialize'' \<mapsto> []],
                       Options = opts,
                       CachePath = [],
                       GetProcAddress = g\<rparr>"])
qed

lemma getType_class_of:
  "compiled_in cfg t \<Longrightarrow> t \<noteq> EXTERNAL \<Longrightarrow> Class (RenWin this) = class_of t
     \<Longrightarrow> getType cfg this = t"
  by (cases t) (simp_all add: getType_def IsA_def)

text \<open>
  For the requests \<open>EXTERNAL\<close>, \<open>EGL\<close>, \<open>OSMESA\<close> and \<open>GLX\<close> the constructor throws the
  \<open>no_window_exception\<close> when the type is not compiled in.
\<close>

lemma ctor_unsupported_throws_no_window:
  "\<not> compiled_in cfg t \<Longrightarrow> t = EXTERNAL \<or> t = EGL \<or> t = OSMESA \<or> t = GLX
     \<Longrightarrow> \<exists>msg. window_impl_ctor cfg env opts (Some t) off g = Inl (no_window_exception msg)"
  by (auto simp: window_impl_ctor_def select_RenWin_def)

text \<open>
  C1 (the request \<open>WGL\<close> in a build without \<open>_WIN32\<close>). The branch for \<open>WGL\<close> has no
  \<open>#else\<close>: in the Linux build, where \<open>WGL\<close> is not compiled in, the constructor leaves
  \<open>RenWin\<close> null and stops at the \<open>assert\<close>, or with \<open>NDEBUG\<close> at the first call through the
  null pointer. It does not throw the \<open>no_window_exception\<close>.
\<close>

theorem ctor_WGL_without_WIN32:
  "\<not> compiled_in linux_build WGL
   \<and> window_impl_ctor linux_build env opts (Some WGL) off g
       = Inl (assertion_failed ''this->Internals->RenWin != nullptr'')
   \<and> window_impl_ctor (linux_build\<lparr>NDEBUG := True\<rparr>) env opts (Some WGL) off g
       = Inl null_pointer_dereference
   \<and> window_impl_ctor linux_build env opts (Some WGL) off g \<noteq> Inl (no_window_exception msg)"
  by (simp add: window_impl_ctor_def select_RenWin_def linux_build_def)

text \<open>
  For every compiled-in backend type other than \<open>EXTERNAL\<close>, construction followed by
  \<open>getType()\<close> gives the requested type, unless the construction ends with the exception
  of the theme update on Windows (the \<open>std::out_of_range\<close> of \<open>std::stoi\<close>), in which case
  there is no window.
\<close>

lemma getType_matches_request:
  assumes "compiled_in cfg requested" and "requested \<noteq> EXTERNAL"
  shows "constructed_type cfg env opts (Some requested) off g =
           (case UpdateTheme cfg env of Inl e \<Rightarrow> Inl e | Inr effects \<Rightarrow> Inr requested)"
proof -
  from ctor_compiled_in [OF assms(1), of env opts off g] obtain this
    where cls: "Class (RenWin this) = class_of requested"
      and ctor: "window_impl_ctor cfg env opts (Some requested) off g =
              (case UpdateTheme cfg env of
                 Inl e \<Rightarrow> Inl e
               | Inr effects \<Rightarrow>
                   Inr (this, effects @
                     [debug (''VTK window class type is '' @ GetClassName (class_of requested))]))"
    by blast
  from getType_class_of [OF assms cls] have "getType cfg this = requested" .
  then show ?thesis
    by (simp add: constructed_type_def ctor split: sum.splits)
qed

lemma getType_matches_request_GLX:
  "constructed_type linux_build no_registry example_options (Some GLX) False None = Inr GLX"
proof -
  have c: "compiled_in linux_build GLX" by (simp add: linux_build_def)
  have n: "GLX \<noteq> EXTERNAL" by simp
  have t: "UpdateTheme linux_build no_registry = Inr []"
    by (simp add: UpdateTheme_def linux_build_def)
  from getType_matches_request [OF c n, of no_registry example_options False None] t
  show ?thesis by simp
qed

text \<open>
  C2 (the request \<open>EXTERNAL\<close> in a build with the external rendering module). The type
  is compiled in and the constructor builds the window; the window is a
  \<open>vtkExternalOpenGLRenderWindow\<close>, the class the constructor itself tests for; but
  \<open>getType()\<close>, which has a test for the class of every other type the constructor can
  build, has none for this class, and reports \<open>UNKNOWN\<close> instead of \<open>EXTERNAL\<close>.
\<close>

theorem getType_EXTERNAL_reports_UNKNOWN:
  "compiled_in external_build EXTERNAL
   \<and> (case window_impl_ctor external_build no_registry example_options (Some EXTERNAL)
              False None of
         Inl e \<Rightarrow> False
       | Inr (this, effects) \<Rightarrow>
           IsA (RenWin this) ''vtkExternalOpenGLRenderWindow''
           \<and> getType external_build this = UNKNOWN)
   \<and> constructed_type external_build no_registry example_options (Some EXTERNAL) False None
       = Inr UNKNOWN"
  by (simp add: constructed_type_def window_impl_ctor_def select_RenWin_def
        external_build_def linux_build_def no_registry_def UpdateTheme_def getType_def
        IsA_def Let_def)

section \<open>Properties of the option synchronization\<close>

lemma run_Nil [simp]: "run [] this = this"
  by (simp add: run_def)

lemma run_Cons [simp]: "run (c # calls) this = run calls (invoke c this)"
  by (simp add: run_def)

lemma run_append: "run (xs @ ys) this = run ys (run xs this)"
  by (simp add: run_def)

lemma UpdateDynamicOptions_calls_not_on_RenWin:
  "list_all not_on_RenWin (UpdateDynamicOptions_calls this)"
  by (simp add: UpdateDynamicOptions_calls_def Let_def split: option.splits)

text \<open>Calls that are not on the render window change the renderer settings only.\<close>

lemma run_pushed:
  "list_all not_on_RenWin calls
     \<Longrightarrow> run calls this = this\<lparr>Renderer := pushed calls (Renderer this)\<rparr>"
proof (induction calls arbitrary: this)
  case Nil
  then show ?case by simp
next
  case (Cons c calls)
  then show ?case by (cases c rule: not_on_RenWin.cases) simp_all
qed

lemma UpdateDynamicOptions_pushed:
  "UpdateDynamicOptions this =
     this\<lparr>Renderer := pushed (UpdateDynamicOptions_calls this) (Renderer this)\<rparr>"
  by (simp add: UpdateDynamicOptions_def run_pushed [OF UpdateDynamicOptions_calls_not_on_RenWin])

text \<open>
  The calls of a synchronization are a function of the render window, the options and
  the cache path.
\<close>

lemma UpdateDynamicOptions_calls_cong:
  "RenWin a = RenWin b \<Longrightarrow> Options a = Options b \<Longrightarrow> CachePath a = CachePath b
     \<Longrightarrow> UpdateDynamicOptions_calls a = UpdateDynamicOptions_calls b"
  by (simp add: UpdateDynamicOptions_calls_def)

text \<open>The settings after a list of calls are the settings before, overridden by the calls.\<close>

lemma pushed_map_add: "pushed calls s = s ++ pushed calls Map.empty"
proof (induction calls arbitrary: s)
  case Nil
  then show ?case by simp
next
  case (Cons c calls)
  show ?case
  proof (cases c)
    case (Call r m a)
    show ?thesis
    proof (cases r)
      case on_Renderer
      have e: "pushed (c # calls) Map.empty = [m \<mapsto> a] ++ pushed calls Map.empty"
      proof -
        have "pushed (c # calls) Map.empty = pushed calls [m \<mapsto> a]"
          by (simp add: Call on_Renderer)
        also have "\<dots> = [m \<mapsto> a] ++ pushed calls Map.empty"
          by (rule Cons.IH)
        finally show ?thesis .
      qed
      have "pushed (c # calls) s = pushed calls (s(m \<mapsto> a))"
        by (simp add: Call on_Renderer)
      also have "\<dots> = s(m \<mapsto> a) ++ pushed calls Map.empty"
        by (rule Cons.IH)
      also have "\<dots> = s ++ ([m \<mapsto> a] ++ pushed calls Map.empty)"
        by (simp add: fun_eq_iff map_add_def split: option.splits)
      also have "\<dots> = s ++ pushed (c # calls) Map.empty"
        by (simp only: e)
      finally show ?thesis .
    next
      case vtksys_SystemTools
      then show ?thesis using Call Cons.IH [of s] by simp
    next
      case on_RenWin
      then show ?thesis using Call Cons.IH [of s] by simp
    qed
  qed
qed

lemma pushed_idem: "pushed calls (pushed calls s) = pushed calls s"
proof -
  have "pushed calls (pushed calls s) = (s ++ pushed calls Map.empty) ++ pushed calls Map.empty"
    using pushed_map_add [of calls "pushed calls s"] pushed_map_add [of calls s] by simp
  also have "\<dots> = s ++ pushed calls Map.empty"
    by (simp add: fun_eq_iff map_add_def split: option.splits)
  finally show ?thesis using pushed_map_add [of calls s] by simp
qed

lemma getType_NONE_IsA:
  "getType cfg this = NONE \<Longrightarrow> IsA (RenWin this) ''vtkF3DNoRenderWindow''"
  by (simp add: getType_def split: if_splits)

text \<open>
  C5. When the render window is the "none" window, \<open>UpdateDynamicOptions\<close> makes one call,
  \<open>UpdateActors\<close>, and no setter call: the window is left as it was but for the record of
  that call in the renderer; every other renderer setting, and the render window, are
  unchanged.
\<close>

theorem UpdateDynamicOptions_none:
  "IsA (RenWin this) ''vtkF3DNoRenderWindow''
     \<Longrightarrow> UpdateDynamicOptions_calls this = [Call on_Renderer ''UpdateActors'' []]
         \<and> UpdateDynamicOptions this
             = this\<lparr>Renderer := (Renderer this)(''UpdateActors'' \<mapsto> [])\<rparr>"
  by (simp add: UpdateDynamicOptions_def UpdateDynamicOptions_calls_def)

theorem UpdateDynamicOptions_none_witness:
  "window_impl_ctor linux_build no_registry example_options (Some NONE) True None
      = Inr (none_window, [debug ''VTK window class type is vtkF3DNoRenderWindow''])
   \<and> getType linux_build none_window = NONE
   \<and> IsA (RenWin none_window) ''vtkF3DNoRenderWindow''
   \<and> UpdateDynamicOptions_calls none_window = [Call on_Renderer ''UpdateActors'' []]
   \<and> UpdateDynamicOptions none_window
       = none_window\<lparr>Renderer := [''Initialize'' \<mapsto> [], ''UpdateActors'' \<mapsto> []]\<rparr>"
proof -
  have ctor: "window_impl_ctor linux_build no_registry example_options (Some NONE) True None
      = Inr (none_window, [debug ''VTK window class type is vtkF3DNoRenderWindow''])"
    by (simp add: window_impl_ctor_def select_RenWin_def UpdateTheme_def none_window_def
          Let_def) (simp add: linux_build_def)
  have isa: "IsA (RenWin none_window) ''vtkF3DNoRenderWindow''"
    by (simp add: none_window_def IsA_def)
  have ty: "getType linux_build none_window = NONE"
    by (simp add: getType_def none_window_def IsA_def)
  have r: "Renderer none_window = [''Initialize'' \<mapsto> []]"
    by (simp add: none_window_def)
  from UpdateDynamicOptions_none [OF isa] ctor isa ty r show ?thesis by simp
qed

text \<open>
  C9. \<open>UpdateDynamicOptions\<close> is idempotent: with the options snapshot, the cache path and
  the render window fixed, a second run right after the first makes the same calls with
  the same arguments, and leaves the window, with its renderer, in the state the first
  run left.
\<close>

theorem UpdateDynamicOptions_idempotent:
  "UpdateDynamicOptions (UpdateDynamicOptions this) = UpdateDynamicOptions this
   \<and> UpdateDynamicOptions_calls (UpdateDynamicOptions this) = UpdateDynamicOptions_calls this"
proof -
  have same: "UpdateDynamicOptions_calls (UpdateDynamicOptions this)
                = UpdateDynamicOptions_calls this"
    by (rule UpdateDynamicOptions_calls_cong) (simp_all add: UpdateDynamicOptions_pushed)
  have "UpdateDynamicOptions (UpdateDynamicOptions this) = UpdateDynamicOptions this"
    by (subst UpdateDynamicOptions_pushed)
      (simp add: same, simp add: UpdateDynamicOptions_pushed pushed_idem)
  with same show ?thesis by simp
qed

section \<open>Properties of rendering\<close>

text \<open>
  C6. \<open>render()\<close> runs the option synchronization in full, then the frame draw
  (\<open>RenWin->Render()\<close>), and returns a boolean that is \<open>true\<close> in every case.
\<close>

theorem render_returns_true:
  "fst (window_impl_render this) = True
   \<and> render_calls this = UpdateDynamicOptions_calls this @ [Call on_RenWin ''Render'' []]
   \<and> snd (window_impl_render this) = run (render_calls this) this
   \<and> snd (window_impl_render this)
       = invoke (Call on_RenWin ''Render'' []) (UpdateDynamicOptions this)"
  by (simp add: window_impl_render_def render_calls_def run_append UpdateDynamicOptions_def
        Let_def)

text \<open>
  The renderers of the render window are those the constructor added: neither the option
  synchronization nor \<open>render()\<close> changes them.
\<close>

lemma Renderers_UpdateDynamicOptions:
  "Renderers (RenWin (UpdateDynamicOptions this)) = Renderers (RenWin this)"
  by (simp add: UpdateDynamicOptions_pushed)

lemma Renderers_render:
  "Renderers (RenWin (snd (window_impl_render this))) = Renderers (RenWin this)"
  by (simp add: window_impl_render_def Let_def Set_def UpdateDynamicOptions_pushed)

text \<open>
  The state in which the toolkit executes the capture of \<open>renderToImage(true)\<close>, on a
  window with its renderer (every constructed window, by \<open>ctor_has_renderer\<close>): the
  renderer's background is \<open>(0, 0, 0)\<close>, set after the option synchronization, and the
  buffer type of the window-to-image filter is RGBA; the returned image is the capture
  taken in that state. The pixels of the image are what the toolkit draws in that state:
  \<open>capture\<close> is a parameter, and nothing is stated about them. The other settings that
  the synchronization pushed, the skybox among them, are in that state as well.
\<close>

lemma renderToImage_noBackground:
  "Renderers (RenWin this) \<noteq> [] \<Longrightarrow>
   \<exists>ready rtW2if exporter.
      renderToImage_setup True this = Inr (ready, rtW2if, exporter)
    \<and> Renderer ready ''SetBackground'' = Some [VDoubles [0, 0, 0]]
    \<and> rtW2if ''SetInputBufferType'' = Some [VBufferType VTK_RGBA]
    \<and> (\<exists>img. renderToImage capture True this = Inr (img, ready)
          \<and> content img = Exported (capture ready rtW2if exporter))"
  by (cases "Renderers (RenWin this)")
     (auto simp: renderToImage_def renderToImage_setup_def Let_def UpdateDynamicOptions_pushed
        split: prod.splits renderer_ref.splits)

lemma renderToImage_noBackground_glx_window:
  "Renderers (RenWin glx_window) \<noteq> []
   \<and> (\<exists>ready rtW2if exporter.
        renderToImage_setup True glx_window = Inr (ready, rtW2if, exporter)
      \<and> Renderer ready ''SetBackground'' = Some [VDoubles [0, 0, 0]]
      \<and> rtW2if ''SetInputBufferType'' = Some [VBufferType VTK_RGBA]
      \<and> (\<exists>img. renderToImage example_capture True glx_window = Inr (img, ready)
            \<and> content img = Exported (example_capture ready rtW2if exporter)))"
proof -
  have h: "Renderers (RenWin glx_window) \<noteq> []"
    by (simp add: glx_window_def Renderers_configure_RenWin)
  from renderToImage_noBackground [OF h, of example_capture] h show ?thesis by blast
qed

end
